theory Spec2Isabelle
  imports Main
begin

section \<open>Go values: errors, panics, process exit\<close>

text \<open>
  A Go \<^verbatim>\<open>error\<close> value is modelled by its message; \<^verbatim>\<open>nil\<close> is \<open>None\<close> of
  \<open>error option\<close>. A pointer that may be \<^verbatim>\<open>nil\<close> is an \<open>option\<close>. A function of the
  reconciler either returns its result tuple or panics at run time (a nil pointer
  dereference, an index out of range). The constructor of the client either returns or
  ends the process through \<^verbatim>\<open>log.Fatalf\<close>.
\<close>

datatype error = Errorf string

fun Error :: "error \<Rightarrow> string" where
  "Error (Errorf m) = m"

datatype panic = NilPointerDereference | IndexOutOfRange

datatype 'a exec = Return 'a | Panic panic

datatype 'a process = Returned 'a | Fatalf string

section \<open>Data model\<close>

subsection \<open>The remote API's values (triton-go)\<close>

record Instance =
  Instance_ID :: string
  Instance_Name :: string
  Instance_IPs :: "string list"

record Image =
  Image_ID :: string

record Network =
  Network_Id :: string
  Network_Name :: string

record CreateInstanceInput =
  Create_Name :: string
  Create_Package :: string
  Create_Image :: string
  Create_Networks :: "string list"
  Create_Metadata :: "string \<rightharpoonup> string"
  Create_Tags :: "string \<rightharpoonup> string"
  Create_CNS_Services :: "string list"

subsection \<open>The cluster state (apis/cluster)\<close>

text \<open>
  Modelled from the spec: the package \<^verbatim>\<open>apis/cluster\<close> (the types \<^verbatim>\<open>Cluster\<close>,
  \<^verbatim>\<open>ControlPlaneProviderConfig\<close>, \<^verbatim>\<open>ServerPool\<close> and the accessors
  \<^verbatim>\<open>ProviderConfig()\<close> and \<^verbatim>\<open>SetProviderConfig()\<close>) is not among the source files. The
  spec describes the cluster state as the shared configuration read and written by
  reference during Apply: the endpoint of the control plane, its port, and a string-keyed
  injection map. The fields below are the ones the reconciler's code touches
  (\<^verbatim>\<open>KubernetesAPI.Endpoint\<close>, \<^verbatim>\<open>KubernetesAPI.Port\<close>, \<^verbatim>\<open>Values.ItemMap\<close>,
  \<^verbatim>\<open>GroupIdentifier\<close>, \<^verbatim>\<open>Name\<close>); the port is a string, as the code formats it with
  \<^verbatim>\<open>%s\<close> and stores it in a \<^verbatim>\<open>map[string]string\<close>. The injection map is taken to be
  allocated. The role is the spec's two-valued enumeration, under the names of the
  constants the code compares with.
\<close>

record ControlPlaneProviderConfig =
  KubernetesAPI_Endpoint :: string
  KubernetesAPI_Port :: string
  Values_ItemMap :: "string \<rightharpoonup> string"
  GroupIdentifier :: string

record Cluster =
  Cluster_Name :: string
  Cluster_ProviderConfig :: ControlPlaneProviderConfig

datatype ServerPoolType = ServerPoolTypeMaster | ServerPoolTypeNode

record ServerPool =
  ServerPool_Name :: string
  ServerPool_Type :: ServerPoolType
  ServerPool_BootstrapScripts :: "string list"
  ServerPool_Identifier :: string

text \<open>
  Modelled from the spec: \<^verbatim>\<open>ProviderConfig()\<close> hands out the cluster's configuration
  object itself (a shared reference), so a write through it is a write to the cluster
  state, and \<^verbatim>\<open>SetProviderConfig\<close> stores the given configuration.
\<close>

definition ProviderConfig :: "Cluster \<Rightarrow> ControlPlaneProviderConfig" where
  "ProviderConfig c = Cluster_ProviderConfig c"

definition SetProviderConfig :: "ControlPlaneProviderConfig \<Rightarrow> Cluster \<Rightarrow> Cluster" where
  "SetProviderConfig config c = c\<lparr>Cluster_ProviderConfig := config\<rparr>"

subsection \<open>The resource\<close>

text \<open>
  \<^verbatim>\<open>ResourceGroup\<close> embeds \<^verbatim>\<open>Shared\<close> (name, tags, identifier; its declaration is not
  among the source files, the three fields are the ones the code reads and writes) and
  holds a pointer to its server pool, which \<^verbatim>\<open>Actual\<close> and \<^verbatim>\<open>Delete\<close> leave nil.
\<close>

record ResourceGroup =
  Name :: string
  Tags :: "string \<rightharpoonup> string"
  Identifier :: string
  BootstrapScripts :: "string list"
  ServerPool :: "ServerPool option"

subsection \<open>Constants\<close>

definition MasterIPAttempts :: nat where
  "MasterIPAttempts = 100"

definition MasterIPSleepSecondsPerAttempt :: nat where
  "MasterIPSleepSecondsPerAttempt = 5"

definition PackageName :: string where
  "PackageName = ''k4-highcpu-kvm-1.75G''"

definition ImageName :: string where
  "ImageName = ''ubuntu-certified-16.04''"

definition ImageVersion :: string where
  "ImageVersion = ''20180222''"

definition NetworkName :: string where
  "NetworkName = ''Joyent-SDC-Public''"

definition FabricNetwork :: string where
  "FabricNetwork = ''My-Fabric-Network''"

section \<open>The world outside the reconciler\<close>

text \<open>
  Every effect of the reconciler is recorded, in order, in a trace: the calls on the
  package-level \<^verbatim>\<open>Sdk\<close> handle and the sleeps of the poller.
\<close>

datatype Event =
  InstancesGet string
  | InstancesCreate CreateInstanceInput
  | ImagesList string string
  | NetworkList
  | Sleep nat

fun is_fetch :: "Event \<Rightarrow> bool" where
  "is_fetch (InstancesGet _) = True"
| "is_fetch _ = False"

fun is_create :: "Event \<Rightarrow> bool" where
  "is_create (InstancesCreate _) = True"
| "is_create _ = False"

definition fetches :: "Event list \<Rightarrow> nat" where
  "fetches tr = length (filter is_fetch tr)"

text \<open>
  The remote control plane and the two helper packages of the repository that are not
  among the source files (\<^verbatim>\<open>pkg/compare\<close>, \<^verbatim>\<open>pkg/script\<close>) are parameters: the
  answer of the \<open>n\<close>-th get-instance call (counted from 0 over the whole trace) for an
  identifier, the answer of create, of the image and network listings, the comparer and
  the script renderer. Each answer is the Go pair of a result and an error, with nothing
  assumed about which combinations occur.
\<close>

record Env =
  Sdk_Instances_Get :: "nat \<Rightarrow> string \<Rightarrow> Instance option \<times> error option"
  Sdk_Instances_Create :: "CreateInstanceInput \<Rightarrow> Instance option \<times> error option"
  Sdk_Images_List :: "string \<Rightarrow> string \<Rightarrow> Image list \<times> error option"
  Sdk_Network_List :: "Network list \<times> error option"
  compare_IsEqual :: "ResourceGroup \<Rightarrow> ResourceGroup \<Rightarrow> bool \<times> error option"
  script_BuildBootstrapScript :: "string list \<Rightarrow> Cluster \<Rightarrow> string \<times> error option"

text \<open>
  The mutable state: the cluster object behind the pointer \<^verbatim>\<open>immutable\<close>, which Apply
  and Delete write through, and the trace.
\<close>

record World =
  cluster :: Cluster
  trace :: "Event list"

definition emit :: "Event \<Rightarrow> World \<Rightarrow> World" where
  "emit e w = w\<lparr>trace := trace w @ [e]\<rparr>"

section \<open>The Address Discovery Poller\<close>

text \<open>
  \<^verbatim>\<open>getMasterIP\<close>: \<^verbatim>\<open>ret := make([]string, 3, 3)\<close> is a slice of three empty strings;
  the loop runs \<open>i\<close> from 0 below \<open>MasterIPAttempts\<close>. Each round fetches the instance,
  returns \<open>(ret, err)\<close> on an error, reads \<^verbatim>\<open>instance.IPs\<close> (a nil instance panics),
  returns the addresses if there is one, and sleeps otherwise.
\<close>

function getMasterIP_loop ::
  "Env \<Rightarrow> string \<Rightarrow> string list \<Rightarrow> nat \<Rightarrow> World \<Rightarrow> (string list \<times> error option) exec \<times> World"
where
  "getMasterIP_loop env identifier ret i w =
     (if i < MasterIPAttempts then
        (case Sdk_Instances_Get env (fetches (trace w)) identifier of
           (instance, err) \<Rightarrow>
             (let w1 = emit (InstancesGet identifier) w in
              case err of
                Some e \<Rightarrow> (Return (ret, Some e), w1)
              | None \<Rightarrow>
                  (case instance of
                     None \<Rightarrow> (Panic NilPointerDereference, w1)
                   | Some inst \<Rightarrow>
                       if length (Instance_IPs inst) > 0 then (Return (Instance_IPs inst, None), w1)
                       else getMasterIP_loop env identifier ret (i + 1)
                              (emit (Sleep MasterIPSleepSecondsPerAttempt) w1))))
      else (Return (ret, None), w))"
  by pat_completeness auto
termination
  by (relation "measure (\<lambda>(env, identifier, ret, i, w). MasterIPAttempts - i)") auto

declare getMasterIP_loop.simps [simp del]

definition getMasterIP :: "Env \<Rightarrow> string \<Rightarrow> World \<Rightarrow> (string list \<times> error option) exec \<times> World" where
  "getMasterIP env identifier w = getMasterIP_loop env identifier (replicate 3 '''') 0 w"

section \<open>The Resource Reconciler\<close>

text \<open>
  The operations return the Go triple (cluster pointer, resource, error). The cluster
  pointer is nil or \<^verbatim>\<open>immutable\<close>; in the second case the triple carries the cluster
  object's contents at the time of the return. The \<^verbatim>\<open>cloud.Resource\<close> arguments are
  taken at the type the code asserts them to, \<^verbatim>\<open>*ResourceGroup\<close>. Logging and the
  \<^verbatim>\<open>json.Marshal\<close> for the debug line are left out.
\<close>

type_synonym result = "Cluster option \<times> ResourceGroup option \<times> error option"

subsection \<open>Actual\<close>

text \<open>
  \<^verbatim>\<open>r.ServerPool.Name\<close> is read for the tag (a nil server pool panics). With a non-empty
  identifier the instance is fetched, and its name and id are read before the error is
  looked at.
\<close>

definition Actual :: "Env \<Rightarrow> ResourceGroup \<Rightarrow> World \<Rightarrow> result exec \<times> World" where
  "Actual env r w =
     (case ServerPool r of
        None \<Rightarrow> (Panic NilPointerDereference, w)
      | Some pool \<Rightarrow>
          (let newResource = \<lparr>Name = Name r, Tags = [''Name'' \<mapsto> ServerPool_Name pool],
                               Identifier = Identifier r, BootstrapScripts = [],
                               ServerPool = None\<rparr>
           in if Identifier newResource \<noteq> '''' then
                (case Sdk_Instances_Get env (fetches (trace w)) (Identifier newResource) of
                   (instance, err) \<Rightarrow>
                     (let w1 = emit (InstancesGet (Identifier newResource)) w in
                      case instance of
                        None \<Rightarrow> (Panic NilPointerDereference, w1)
                      | Some inst \<Rightarrow>
                          (let newResource1 = newResource\<lparr>Name := Instance_Name inst,
                                                           Identifier := Instance_ID inst\<rparr>
                           in case err of
                                Some e \<Rightarrow> (Return (None, None, Some e), w1)
                              | None \<Rightarrow> (Return (Some (cluster w1), Some newResource1, None), w1))))
              else (Return (Some (cluster w), Some newResource, None), w)))"

subsection \<open>Apply\<close>

text \<open>
  Modelled from the spec: the assignment
  \<^verbatim>\<open>immutable.ProviderConfig().KubernetesAPI.Endpoint = v\<close> is a write through the
  shared reference that \<^verbatim>\<open>ProviderConfig()\<close> hands out.
\<close>

definition setEndpoint :: "string \<Rightarrow> Cluster \<Rightarrow> Cluster" where
  "setEndpoint v c = c\<lparr>Cluster_ProviderConfig := (ProviderConfig c)\<lparr>KubernetesAPI_Endpoint := v\<rparr>\<rparr>"

text \<open>
  \<^verbatim>\<open>providerConfig.Values.ItemMap[k] = v\<close> followed by
  \<^verbatim>\<open>immutable.SetProviderConfig(providerConfig)\<close>.
\<close>

definition setItem :: "string \<Rightarrow> string \<Rightarrow> Cluster \<Rightarrow> Cluster" where
  "setItem k v c =
     (let providerConfig = ProviderConfig c;
          providerConfig1 = providerConfig\<lparr>Values_ItemMap := (Values_ItemMap providerConfig)(k \<mapsto> v)\<rparr>
      in SetProviderConfig providerConfig1 c)"

text \<open>
  The loop over the network listing: each network named \<open>NetworkName\<close> replaces
  \<^verbatim>\<open>net1\<close>, each one named \<open>FabricNetwork\<close> replaces \<^verbatim>\<open>net2\<close>; both start nil.
\<close>

definition findNetworks :: "Network list \<Rightarrow> Network option \<times> Network option" where
  "findNetworks nets =
     fold (\<lambda>found (net1, net2).
             (if Network_Name found = NetworkName then Some found else net1,
              if Network_Name found = FabricNetwork then Some found else net2))
          nets (None, None)"

text \<open>
  Lines 194 to 205: the new resource. \<^verbatim>\<open>created.ID\<close> panics on a nil instance, and
  \<^verbatim>\<open>newResource.ServerPool.Identifier = created.ID\<close> on a nil server pool of
  \<^verbatim>\<open>expected\<close>. The server pool object is shared with \<^verbatim>\<open>expected\<close>; only the new
  resource's view of it is kept here.
\<close>

definition Apply_newResource ::
  "ServerPool \<Rightarrow> ResourceGroup \<Rightarrow> Instance option \<Rightarrow> World \<Rightarrow> result exec \<times> World"
where
  "Apply_newResource pool expected created w =
     (case created of
        None \<Rightarrow> (Panic NilPointerDereference, w)
      | Some inst \<Rightarrow>
          (case ServerPool expected of
             None \<Rightarrow> (Panic NilPointerDereference, w)
           | Some epool \<Rightarrow>
               (let newResource = \<lparr>Name = ServerPool_Name pool, Tags = Map.empty,
                                    Identifier = Instance_ID inst, BootstrapScripts = [],
                                    ServerPool = Some (epool\<lparr>ServerPool_Identifier := Instance_ID inst\<rparr>)\<rparr>
                in (Return (Some (cluster w), Some newResource, None), w))))"

text \<open>
  Lines 178 to 192: a master is not done until the poller has its address. An error of the
  poller is returned; a result of length 0 is the error
  \<^verbatim>\<open>Unable to find master IP addresses\<close>; otherwise the first address becomes the
  endpoint.
\<close>

definition Apply_masterEndpoint ::
  "Env \<Rightarrow> ServerPool \<Rightarrow> ResourceGroup \<Rightarrow> Instance option \<Rightarrow> World \<Rightarrow> result exec \<times> World"
where
  "Apply_masterEndpoint env pool expected created w =
     (if ServerPool_Type pool = ServerPoolTypeMaster then
        (case created of
           None \<Rightarrow> (Panic NilPointerDereference, w)
         | Some inst \<Rightarrow>
             (case getMasterIP env (Instance_ID inst) w of
                (Panic p, w1) \<Rightarrow> (Panic p, w1)
              | (Return (masterIPs, Some err), w1) \<Rightarrow> (Return (None, None, Some err), w1)
              | (Return (masterIPs, None), w1) \<Rightarrow>
                  if length masterIPs = 0 then
                    (Return (None, None, Some (Errorf ''Unable to find master IP addresses'')), w1)
                  else
                    Apply_newResource pool expected created
                      (w1\<lparr>cluster := setEndpoint (masterIPs ! 0) (cluster w1)\<rparr>)))
      else Apply_newResource pool expected created w)"

text \<open>
  Lines 118 to 176: the port is written into the injection map, the bootstrap script is
  rendered (an error is returned), the image and the networks are looked up (an error of
  either listing is only logged), and the instance is created (an error is returned).
  With no image the zero image stands in; \<^verbatim>\<open>net1.Id\<close> and \<^verbatim>\<open>net2.Id\<close> dereference
  the pointers the loop has left.
\<close>

definition Apply_create ::
  "Env \<Rightarrow> ServerPool \<Rightarrow> ResourceGroup \<Rightarrow> World \<Rightarrow> result exec \<times> World"
where
  "Apply_create env pool expected w =
     (let w1 = w\<lparr>cluster := setItem ''INJECTEDPORT''
                                (KubernetesAPI_Port (ProviderConfig (cluster w))) (cluster w)\<rparr>
      in case script_BuildBootstrapScript env (ServerPool_BootstrapScripts pool) (cluster w1) of
           (boostrapScript, Some err) \<Rightarrow> (Return (None, None, Some err), w1)
         | (boostrapScript, None) \<Rightarrow>
             (case Sdk_Images_List env ImageName ImageVersion of
                (images, err1) \<Rightarrow>
                  (let w2 = emit (ImagesList ImageName ImageVersion) w1;
                       img = (if length images > 0 then images ! 0 else \<lparr>Image_ID = ''''\<rparr>)
                   in case Sdk_Network_List env of
                        (nets, err2) \<Rightarrow>
                          (let w3 = emit NetworkList w2 in
                           case findNetworks nets of
                             (None, net2) \<Rightarrow> (Panic NilPointerDereference, w3)
                           | (Some n1, None) \<Rightarrow> (Panic NilPointerDereference, w3)
                           | (Some n1, Some n2) \<Rightarrow>
                               (let createInput =
                                      \<lparr>Create_Name = ServerPool_Name pool,
                                       Create_Package = PackageName,
                                       Create_Image = Image_ID img,
                                       Create_Networks = [Network_Id n1, Network_Id n2],
                                       Create_Metadata = [''user-script'' \<mapsto> boostrapScript],
                                       Create_Tags = [''name'' \<mapsto> ServerPool_Name pool],
                                       Create_CNS_Services = [ServerPool_Name pool]\<rparr>
                                in case Sdk_Instances_Create env createInput of
                                     (created, err) \<Rightarrow>
                                       (let w4 = emit (InstancesCreate createInput) w3 in
                                        case err of
                                          Some e \<Rightarrow> (Return (None, None, Some e), w4)
                                        | None \<Rightarrow> Apply_masterEndpoint env pool expected created w4))))))"

text \<open>
  Lines 107 to 117: a node asks the poller for the master's address under the receiver's
  own identifier. An error is returned; \<^verbatim>\<open>masterIPs[0]\<close> panics on an empty slice;
  the address becomes the endpoint and, joined to the port, the item
  \<^verbatim>\<open>INJECTEDMASTER\<close>.
\<close>

definition Apply_masterIP ::
  "Env \<Rightarrow> ResourceGroup \<Rightarrow> ServerPool \<Rightarrow> ResourceGroup \<Rightarrow> World \<Rightarrow> result exec \<times> World"
where
  "Apply_masterIP env r pool expected w =
     (if ServerPool_Type pool = ServerPoolTypeNode then
        (case getMasterIP env (Identifier r) w of
           (Panic p, w1) \<Rightarrow> (Panic p, w1)
         | (Return (masterIPs, Some err), w1) \<Rightarrow> (Return (None, None, Some err), w1)
         | (Return (masterIPs, None), w1) \<Rightarrow>
             if length masterIPs = 0 then (Panic IndexOutOfRange, w1)
             else
               (let c1 = setEndpoint (masterIPs ! 0) (cluster w1);
                    c2 = setItem ''INJECTEDMASTER''
                           (masterIPs ! 0 @ '':'' @ KubernetesAPI_Port (ProviderConfig c1)) c1
                in Apply_create env pool expected (w1\<lparr>cluster := c2\<rparr>)))
      else Apply_create env pool expected w)"

text \<open>
  Lines 94 to 106: the comparer decides first. Its error is returned; an equal pair returns
  at once with the cluster pointer and the expected resource; otherwise
  \<^verbatim>\<open>r.ServerPool.Type\<close> is read (a nil server pool panics) and the steps above run.
\<close>

definition Apply ::
  "Env \<Rightarrow> ResourceGroup \<Rightarrow> ResourceGroup \<Rightarrow> ResourceGroup \<Rightarrow> World \<Rightarrow> result exec \<times> World"
where
  "Apply env r actual expected w =
     (case compare_IsEqual env actual expected of
        (isEqual, Some err) \<Rightarrow> (Return (None, None, Some err), w)
      | (isEqual, None) \<Rightarrow>
          if isEqual then (Return (Some (cluster w), Some expected, None), w)
          else
            (case ServerPool r of
               None \<Rightarrow> (Panic NilPointerDereference, w)
             | Some pool \<Rightarrow> Apply_masterIP env r pool expected w))"

subsection \<open>Delete and the render step\<close>

text \<open>
  \<^verbatim>\<open>immutableRender\<close> starts from an empty provider configuration, copies the
  resource's identifier into its group identifier, names the cluster after the resource
  and stores the configuration.
\<close>

definition immutableRender :: "ResourceGroup \<Rightarrow> Cluster \<Rightarrow> Cluster" where
  "immutableRender newResource inaccurateCluster =
     (let providerConfig = \<lparr>KubernetesAPI_Endpoint = '''', KubernetesAPI_Port = '''',
                             Values_ItemMap = Map.empty, GroupIdentifier = ''''\<rparr>;
          providerConfig1 = providerConfig\<lparr>GroupIdentifier := Identifier newResource\<rparr>;
          newCluster = inaccurateCluster\<lparr>Cluster_Name := Name newResource\<rparr>
      in SetProviderConfig providerConfig1 newCluster)"

definition Delete :: "ResourceGroup \<Rightarrow> ResourceGroup \<Rightarrow> World \<Rightarrow> result exec \<times> World" where
  "Delete r actual w =
     (if Identifier actual = '''' then
        (Return (None, None,
           Some (Errorf (''Unable to delete VPC resource without ID ['' @ Name actual @ '']''))), w)
      else
        (let newResource = \<lparr>Name = Name r, Tags = Tags r, Identifier = '''',
                             BootstrapScripts = [], ServerPool = None\<rparr>;
             w1 = w\<lparr>cluster := immutableRender newResource (cluster w)\<rparr>
         in (Return (Some (cluster w1), Some newResource, None), w1)))"

section \<open>The client constructor\<close>

text \<open>
  \<^verbatim>\<open>NewSdk\<close> reads two environment variables, builds a signer (from the SSH agent,
  from a key file, or from inline key material) and the two clients. The operating system
  and the triton-go constructors are parameters; signers and clients are opaque handles.
\<close>

datatype Signer = Signer nat

datatype ComputeClient = ComputeClient nat

datatype NetworkClient = NetworkClient nat

record SSHAgentSignerInput =
  SSHAgent_KeyID :: string
  SSHAgent_AccountName :: string

record PrivateKeySignerInput =
  PrivateKey_KeyID :: string
  PrivateKey_PrivateKeyMaterial :: string
  PrivateKey_AccountName :: string
  PrivateKey_Username :: string

record ClientConfig =
  TritonURL :: string
  AccountName :: string
  Username :: string
  Signers :: "Signer option list"

record Block =
  Headers :: "string \<rightharpoonup> string"

record Sdk =
  Compute :: "ComputeClient option"
  Network :: "NetworkClient option"

record System =
  os_Getenv :: "string \<Rightarrow> string"
  os_Stat :: "string \<Rightarrow> error option"
  ioutil_ReadFile :: "string \<Rightarrow> string \<times> error option"
  pem_Decode :: "string \<Rightarrow> Block option"
  authentication_NewSSHAgentSigner :: "SSHAgentSignerInput \<Rightarrow> Signer option \<times> error option"
  authentication_NewPrivateKeySigner :: "PrivateKeySignerInput \<Rightarrow> Signer option \<times> error option"
  compute_NewClient :: "ClientConfig \<Rightarrow> ComputeClient option \<times> error option"
  network_NewClient :: "ClientConfig \<Rightarrow> NetworkClient option \<times> error option"

text \<open>
  Lines 68 to 89: the key bytes. If \<^verbatim>\<open>os.Stat\<close> finds the file, it is read and decoded;
  a read error, no PEM block, or an encrypted key end the process. Otherwise the variable's
  value is the key itself. A missing header reads as the empty string in Go, so the
  comparison holds only for a present header of that value.
\<close>

definition NewSdk_keyBytes :: "System \<Rightarrow> string \<Rightarrow> string process" where
  "NewSdk_keyBytes sys keyMaterial =
     (case os_Stat sys keyMaterial of
        None \<Rightarrow>
          (case ioutil_ReadFile sys keyMaterial of
             (keyBytes, Some err) \<Rightarrow>
               Fatalf (''Error reading key material from '' @ keyMaterial @ '': '' @ Error err)
           | (keyBytes, None) \<Rightarrow>
               (case pem_Decode sys keyBytes of
                  None \<Rightarrow>
                    Fatalf (''Failed to read key material '' @ [CHR 0x27] @ keyMaterial @ [CHR 0x27]
                            @ '': no key found'')
                | Some block \<Rightarrow>
                    if Headers block ''Proc-Type'' = Some ''4,ENCRYPTED'' then
                      Fatalf (''Failed to read key '' @ [CHR 0x27] @ keyMaterial @ [CHR 0x27]
                              @ '': password protected keys are'' @ [CHR 0x0A]
                              @ ''not currently supported. Please decrypt the key prior to use.'')
                    else Returned keyBytes))
      | Some err \<Rightarrow> Returned keyMaterial)"

text \<open>Lines 56 to 101: the signer, from the agent when no key material is given.\<close>

definition NewSdk_signer ::
  "System \<Rightarrow> string \<Rightarrow> string \<Rightarrow> string \<Rightarrow> string \<Rightarrow> Signer option process"
where
  "NewSdk_signer sys keyID accountName keyMaterial userName =
     (if keyMaterial = '''' then
        (case authentication_NewSSHAgentSigner sys
                \<lparr>SSHAgent_KeyID = keyID, SSHAgent_AccountName = accountName\<rparr> of
           (signer, Some err) \<Rightarrow> Fatalf (''Error Creating SSH Agent Signer: '' @ Error err)
         | (signer, None) \<Rightarrow> Returned signer)
      else
        (case NewSdk_keyBytes sys keyMaterial of
           Fatalf m \<Rightarrow> Fatalf m
         | Returned keyBytes \<Rightarrow>
             (case authentication_NewPrivateKeySigner sys
                     \<lparr>PrivateKey_KeyID = keyID, PrivateKey_PrivateKeyMaterial = keyBytes,
                      PrivateKey_AccountName = accountName, PrivateKey_Username = userName\<rparr> of
                (signer, Some err) \<Rightarrow>
                  Fatalf (''Error Creating SSH Private Key Signer: '' @ Error err)
              | (signer, None) \<Rightarrow> Returned signer)))"

text \<open>
  \<^verbatim>\<open>NewSdk\<close>: the key id and the account name are literals; both tests for an empty
  value read the key id.
\<close>

definition NewSdk :: "System \<Rightarrow> (Sdk option \<times> error option) process" where
  "NewSdk sys =
     (let keyID = ''f7:75:b3:53:fe:d5:5d:26:13:2a:7f:9b:6b:2e:94:94'' in
      if keyID = '''' then Returned (None, Some (Errorf ''Empty $TRITON_KEY_ID''))
      else
        (let accountName = ''niravpatel27'' in
         if keyID = '''' then Returned (None, Some (Errorf ''Empty $TRITON_KEY_ID''))
         else
           (let keyMaterial = os_Getenv sys ''TRITON_KEY_MATERIAL'';
                userName = os_Getenv sys ''TRITON_USER''
            in case NewSdk_signer sys keyID accountName keyMaterial userName of
                 Fatalf m \<Rightarrow> Fatalf m
               | Returned signer \<Rightarrow>
                   (let config = \<lparr>TritonURL = ''https://us-east-1.api.joyent.com'',
                                   AccountName = accountName, Username = userName,
                                   Signers = [signer]\<rparr>
                    in case compute_NewClient sys config of
                         (computeClient, Some err) \<Rightarrow>
                           Fatalf (''Compute NewClient(): '' @ Error err)
                       | (computeClient, None) \<Rightarrow>
                           (case network_NewClient sys config of
                              (networkClient, Some err) \<Rightarrow>
                                Fatalf (''Network NewClient(): '' @ Error err)
                            | (networkClient, None) \<Rightarrow>
                                Returned (Some \<lparr>Compute = computeClient,
                                                Network = networkClient\<rparr>, None))))))"

section \<open>Observations on a run\<close>

text \<open>
  \<open>fetch_empty env identifier n\<close>: the \<open>n\<close>-th get-instance call succeeds and reports no
  address yet. \<open>polls identifier k\<close>: the trace of \<open>k\<close> rounds of the poller that found
  no address, a fetch and a sleep each.
\<close>

definition fetch_empty :: "Env \<Rightarrow> string \<Rightarrow> nat \<Rightarrow> bool" where
  "fetch_empty env identifier n =
     (case Sdk_Instances_Get env n identifier of
        (Some inst, None) \<Rightarrow> Instance_IPs inst = []
      | _ \<Rightarrow> False)"

definition polls :: "string \<Rightarrow> nat \<Rightarrow> Event list" where
  "polls identifier k =
     concat (replicate k [InstancesGet identifier, Sleep MasterIPSleepSecondsPerAttempt])"

section \<open>Example runs\<close>

text \<open>
  Concrete inputs for the closed theorems below: a cluster listening on port 443, the two
  kinds of server pool, a resource as Actual builds it (no server pool) and as Expected
  builds it, a remote control plane that creates instance \<^verbatim>\<open>i-123\<close>, and
  three behaviours of get-instance: an instance that never reports an address, a scripted
  sequence of answers (a transport error once the script is used up), and a failing fetch.
\<close>

definition cluster0 :: Cluster where
  "cluster0 =
     \<lparr>Cluster_Name = ''kube'',
      Cluster_ProviderConfig =
        \<lparr>KubernetesAPI_Endpoint = '''', KubernetesAPI_Port = ''443'',
         Values_ItemMap = Map.empty, GroupIdentifier = ''''\<rparr>\<rparr>"

definition world0 :: World where
  "world0 = \<lparr>cluster = cluster0, trace = []\<rparr>"

definition pool0 :: "ServerPoolType \<Rightarrow> ServerPool" where
  "pool0 t =
     \<lparr>ServerPool_Name = ''pool-1'', ServerPool_Type = t,
      ServerPool_BootstrapScripts = [''bootstrap.sh''], ServerPool_Identifier = ''''\<rparr>"

definition resource0 :: "string \<Rightarrow> ServerPoolType \<Rightarrow> ResourceGroup" where
  "resource0 ident t =
     \<lparr>Name = ''node-1'', Tags = [''Name'' \<mapsto> ''pool-1''], Identifier = ident,
      BootstrapScripts = [], ServerPool = Some (pool0 t)\<rparr>"

definition actual0 :: "string \<Rightarrow> ResourceGroup" where
  "actual0 ident =
     \<lparr>Name = ''node-1'', Tags = [''Name'' \<mapsto> ''pool-1''], Identifier = ident,
      BootstrapScripts = [], ServerPool = None\<rparr>"

definition both_networks :: "Network list" where
  "both_networks =
     [\<lparr>Network_Id = ''net-public'', Network_Name = ''Joyent-SDC-Public''\<rparr>,
      \<lparr>Network_Id = ''net-fabric'', Network_Name = ''My-Fabric-Network''\<rparr>]"

definition env0 ::
  "bool \<Rightarrow> (nat \<Rightarrow> string \<Rightarrow> Instance option \<times> error option) \<Rightarrow> Network list \<Rightarrow> Env"
where
  "env0 equal gets nets =
     \<lparr>Sdk_Instances_Get = gets,
      Sdk_Instances_Create =
        (\<lambda>input. (Some \<lparr>Instance_ID = ''i-123'', Instance_Name = Create_Name input,
                              Instance_IPs = []\<rparr>, None)),
      Sdk_Images_List = (\<lambda>name version. ([\<lparr>Image_ID = ''img-1''\<rparr>], None)),
      Sdk_Network_List = (nets, None),
      compare_IsEqual = (\<lambda>a b. (equal, None)),
      script_BuildBootstrapScript = (\<lambda>scripts c. (''#!/bin/sh'', None))\<rparr>"

definition never_ready :: "nat \<Rightarrow> string \<Rightarrow> Instance option \<times> error option" where
  "never_ready n ident =
     (Some \<lparr>Instance_ID = ident, Instance_Name = ''pool-1'', Instance_IPs = []\<rparr>, None)"

definition scripted ::
  "string list list \<Rightarrow> nat \<Rightarrow> string \<Rightarrow> Instance option \<times> error option"
where
  "scripted answers n ident =
     (if n < length answers then
        (Some \<lparr>Instance_ID = ident, Instance_Name = ''pool-1'', Instance_IPs = answers ! n\<rparr>,
         None)
      else (None, Some (Errorf ''connection refused'')))"

definition fetch_fails :: "nat \<Rightarrow> string \<Rightarrow> Instance option \<times> error option" where
  "fetch_fails n ident = (None, Some (Errorf ''ResourceNotFound''))"

text \<open>
  An operating system and library for the client constructor: no key material in the
  environment, an SSH agent that yields a signer, and client constructors that succeed;
  and the same with an agent that cannot be reached.
\<close>

definition system0 :: "error option \<Rightarrow> System" where
  "system0 agent_error =
     \<lparr>os_Getenv = (\<lambda>name. ''''),
      os_Stat = (\<lambda>path. Some (Errorf ''no such file or directory'')),
      ioutil_ReadFile = (\<lambda>path. ('''', Some (Errorf ''no such file or directory''))),
      pem_Decode = (\<lambda>bytes. None),
      authentication_NewSSHAgentSigner =
        (\<lambda>input. (case agent_error of None \<Rightarrow> Some (Signer 1) | Some e \<Rightarrow> None, agent_error)),
      authentication_NewPrivateKeySigner = (\<lambda>input. (Some (Signer 2), None)),
      compute_NewClient = (\<lambda>config. (Some (ComputeClient 1), None)),
      network_NewClient = (\<lambda>config. (Some (NetworkClient 1), None))\<rparr>"

section \<open>The poller, round by round\<close>


lemma fetches_append [simp]: "fetches (xs @ ys) = fetches xs + fetches ys"
  by (simp add: fetches_def)

lemma fetches_Cons [simp]: "fetches (e # tr) = (if is_fetch e then 1 else 0) + fetches tr"
  by (simp add: fetches_def)

lemma fetches_Nil [simp]: "fetches [] = 0"
  by (simp add: fetches_def)

lemma fetches_polls [simp]: "fetches (polls ident k) = k"
  by (induction k) (simp_all add: polls_def fetches_def)

lemma polls_Suc: "polls ident (Suc k) = [InstancesGet ident, Sleep MasterIPSleepSecondsPerAttempt] @ polls ident k"
  by (simp add: polls_def)

lemma trace_emit [simp]: "trace (emit e w) = trace w @ [e]"
  by (simp add: emit_def)

lemma cluster_emit [simp]: "cluster (emit e w) = cluster w"
  by (simp add: emit_def)

lemma fetch_emptyD:
  "fetch_empty env ident n \<Longrightarrow>
     \<exists>inst. Sdk_Instances_Get env n ident = (Some inst, None) \<and> Instance_IPs inst = []"
  by (auto simp: fetch_empty_def split: prod.splits option.splits)

lemma getMasterIP_loop_skip:
  "i + k \<le> MasterIPAttempts \<Longrightarrow>
   \<forall>j<k. fetch_empty env ident (fetches (trace w) + j) \<Longrightarrow>
   getMasterIP_loop env ident ret i w =
     getMasterIP_loop env ident ret (i + k) (w\<lparr>trace := trace w @ polls ident k\<rparr>)"
proof (induction k arbitrary: i w)
  case 0
  then show ?case by (simp add: polls_def)
next
  case (Suc k)
  let ?w2 = "emit (Sleep MasterIPSleepSecondsPerAttempt) (emit (InstancesGet ident) w)"
  from Suc.prems(2) have "fetch_empty env ident (fetches (trace w))"
    by (metis add.right_neutral zero_less_Suc)
  then obtain inst where g: "Sdk_Instances_Get env (fetches (trace w)) ident = (Some inst, None)"
    and e: "Instance_IPs inst = []"
    using fetch_emptyD by blast
  from Suc.prems(1) have lt: "i < MasterIPAttempts" by simp
  have step: "getMasterIP_loop env ident ret i w = getMasterIP_loop env ident ret (i + 1) ?w2"
    using lt g e by (subst getMasterIP_loop.simps) simp
  have f2: "fetches (trace ?w2) = Suc (fetches (trace w))"
    by (simp add: fetches_def)
  have a: "\<forall>j<k. fetch_empty env ident (fetches (trace ?w2) + j)"
    using Suc.prems(2) f2 by (metis Suc_less_eq add_Suc add_Suc_right)
  have b: "(i + 1) + k \<le> MasterIPAttempts" using Suc.prems(1) by simp
  have "getMasterIP_loop env ident ret (i + 1) ?w2 =
      getMasterIP_loop env ident ret (i + 1 + k) (?w2\<lparr>trace := trace ?w2 @ polls ident k\<rparr>)"
    by (rule Suc.IH[OF b a])
  moreover have "?w2\<lparr>trace := trace ?w2 @ polls ident k\<rparr> = w\<lparr>trace := trace w @ polls ident (Suc k)\<rparr>"
    by (simp add: emit_def polls_Suc)
  ultimately show ?case using step by simp
qed

text \<open>One round of the loop, by cases on the answer of the fetch.\<close>

lemma getMasterIP_loop_done:
  "\<not> i < MasterIPAttempts \<Longrightarrow> getMasterIP_loop env ident ret i w = (Return (ret, None), w)"
  by (subst getMasterIP_loop.simps) simp

lemma getMasterIP_loop_error:
  "i < MasterIPAttempts \<Longrightarrow> Sdk_Instances_Get env (fetches (trace w)) ident = (ins, Some e) \<Longrightarrow>
   getMasterIP_loop env ident ret i w = (Return (ret, Some e), emit (InstancesGet ident) w)"
  by (subst getMasterIP_loop.simps) simp

lemma getMasterIP_loop_nil:
  "i < MasterIPAttempts \<Longrightarrow> Sdk_Instances_Get env (fetches (trace w)) ident = (None, None) \<Longrightarrow>
   getMasterIP_loop env ident ret i w = (Panic NilPointerDereference, emit (InstancesGet ident) w)"
  by (subst getMasterIP_loop.simps) simp

lemma getMasterIP_loop_found:
  "i < MasterIPAttempts \<Longrightarrow> Sdk_Instances_Get env (fetches (trace w)) ident = (Some inst, None) \<Longrightarrow>
   Instance_IPs inst \<noteq> [] \<Longrightarrow>
   getMasterIP_loop env ident ret i w = (Return (Instance_IPs inst, None), emit (InstancesGet ident) w)"
  by (subst getMasterIP_loop.simps) simp

lemma getMasterIP_loop_retry:
  "i < MasterIPAttempts \<Longrightarrow> Sdk_Instances_Get env (fetches (trace w)) ident = (Some inst, None) \<Longrightarrow>
   Instance_IPs inst = [] \<Longrightarrow>
   getMasterIP_loop env ident ret i w =
     getMasterIP_loop env ident ret (i + 1)
       (emit (Sleep MasterIPSleepSecondsPerAttempt) (emit (InstancesGet ident) w))"
  by (subst getMasterIP_loop.simps) simp

lemma getMasterIP_loop_cases:
  assumes "i < MasterIPAttempts"
  obtains (error) ins e where "Sdk_Instances_Get env (fetches (trace w)) ident = (ins, Some e)"
  | (nil) "Sdk_Instances_Get env (fetches (trace w)) ident = (None, None)"
  | (found) inst where "Sdk_Instances_Get env (fetches (trace w)) ident = (Some inst, None)" "Instance_IPs inst \<noteq> []"
  | (retry) inst where "Sdk_Instances_Get env (fetches (trace w)) ident = (Some inst, None)" "Instance_IPs inst = []"
  by (cases "Sdk_Instances_Get env (fetches (trace w)) ident") (metis option.exhaust)

text \<open>
  What every run of the loop keeps: the number of fetches, the cluster, the shape of the
  trace it appends, and that a result with a nil error is the initial slice or non-empty.
\<close>

lemma getMasterIP_loop_inv:
  "fetches (trace (snd (getMasterIP_loop env ident ret i w))) \<le> fetches (trace w) + (MasterIPAttempts - i)
   \<and> cluster (snd (getMasterIP_loop env ident ret i w)) = cluster w
   \<and> (\<exists>rest. trace (snd (getMasterIP_loop env ident ret i w)) = trace w @ rest
          \<and> (i < MasterIPAttempts \<longrightarrow> rest \<noteq> [] \<and> hd rest = InstancesGet ident)
          \<and> (\<forall>e \<in> set rest. e = InstancesGet ident \<or> e = Sleep MasterIPSleepSecondsPerAttempt))
   \<and> (\<forall>ips. fst (getMasterIP_loop env ident ret i w) = Return (ips, None) \<longrightarrow> ips = ret \<or> ips \<noteq> [])"
proof (induction "env" "ident" "ret" "i" "w" rule: getMasterIP_loop.induct)
  case (1 env ident ret i w)
  show ?case
  proof (cases "i < MasterIPAttempts")
    case False
    then show ?thesis by (simp add: getMasterIP_loop_done)
  next
    case True
    then show ?thesis
    proof (cases rule: getMasterIP_loop_cases[where env=env and w=w and ident=ident])
      case (error ins e)
      then show ?thesis using True by (simp add: getMasterIP_loop_error fetches_def)
    next
      case nil
      then show ?thesis using True by (simp add: getMasterIP_loop_nil fetches_def)
    next
      case (found inst)
      then show ?thesis using True by (simp add: getMasterIP_loop_found fetches_def)
    next
      case (retry inst)
      let ?w2 = "emit (Sleep MasterIPSleepSecondsPerAttempt) (emit (InstancesGet ident) w)"
      have eq: "getMasterIP_loop env ident ret i w = getMasterIP_loop env ident ret (i + 1) ?w2"
        using True retry by (simp add: getMasterIP_loop_retry)
      have IH: "fetches (trace (snd (getMasterIP_loop env ident ret (i + 1) ?w2))) \<le> fetches (trace ?w2) + (MasterIPAttempts - (i + 1))
   \<and> cluster (snd (getMasterIP_loop env ident ret (i + 1) ?w2)) = cluster ?w2
   \<and> (\<exists>rest. trace (snd (getMasterIP_loop env ident ret (i + 1) ?w2)) = trace ?w2 @ rest
          \<and> (i + 1 < MasterIPAttempts \<longrightarrow> rest \<noteq> [] \<and> hd rest = InstancesGet ident)
          \<and> (\<forall>e \<in> set rest. e = InstancesGet ident \<or> e = Sleep MasterIPSleepSecondsPerAttempt))
   \<and> (\<forall>ips. fst (getMasterIP_loop env ident ret (i + 1) ?w2) = Return (ips, None) \<longrightarrow> ips = ret \<or> ips \<noteq> [])"
        using "1.IH"[OF True retry(1)[symmetric] refl refl refl] retry(2) by simp
      then obtain rest where r: "trace (snd (getMasterIP_loop env ident ret (i + 1) ?w2)) = trace ?w2 @ rest"
        "\<forall>e \<in> set rest. e = InstancesGet ident \<or> e = Sleep MasterIPSleepSecondsPerAttempt" by blast
      have "trace (snd (getMasterIP_loop env ident ret i w)) = trace w @ (InstancesGet ident # Sleep MasterIPSleepSecondsPerAttempt # rest)"
        using r eq by simp
      moreover have "\<forall>e \<in> set (InstancesGet ident # Sleep MasterIPSleepSecondsPerAttempt # rest). e = InstancesGet ident \<or> e = Sleep MasterIPSleepSecondsPerAttempt"
        using r(2) by simp
      ultimately have "\<exists>rest. trace (snd (getMasterIP_loop env ident ret i w)) = trace w @ rest
          \<and> (i < MasterIPAttempts \<longrightarrow> rest \<noteq> [] \<and> hd rest = InstancesGet ident)
          \<and> (\<forall>e \<in> set rest. e = InstancesGet ident \<or> e = Sleep MasterIPSleepSecondsPerAttempt)"
        by (metis list.sel(1) list.simps(3))
      moreover have "fetches (trace (snd (getMasterIP_loop env ident ret i w))) \<le> fetches (trace w) + (MasterIPAttempts - i)"
      proof -
        have "fetches (trace ?w2) = fetches (trace w) + 1" by (simp add: fetches_def)
        moreover have "fetches (trace (snd (getMasterIP_loop env ident ret (i + 1) ?w2))) \<le> fetches (trace ?w2) + (MasterIPAttempts - (i + 1))"
          using IH by blast
        ultimately show ?thesis unfolding eq using True by linarith
      qed
      moreover have "cluster (snd (getMasterIP_loop env ident ret i w)) = cluster w"
        using IH eq by simp
      moreover have "\<forall>ips. fst (getMasterIP_loop env ident ret i w) = Return (ips, None) \<longrightarrow> ips = ret \<or> ips \<noteq> []"
        using IH eq by simp
      ultimately show ?thesis by blast
    qed
  qed
qed

section \<open>The poller as a whole\<close>

lemma getMasterIP_fetches_le:
  "fetches (trace (snd (getMasterIP env ident w))) \<le> fetches (trace w) + MasterIPAttempts"
  using getMasterIP_loop_inv[of env ident "replicate 3 []" 0 w] by (simp add: getMasterIP_def)

lemma getMasterIP_cluster: "cluster (snd (getMasterIP env ident w)) = cluster w"
  using getMasterIP_loop_inv[of env ident "replicate 3 []" 0 w] by (simp add: getMasterIP_def)

lemma getMasterIP_only_polls:
  "\<exists>rest. trace (snd (getMasterIP env ident w)) = trace w @ rest
      \<and> (\<forall>e \<in> set rest. e = InstancesGet ident \<or> e = Sleep MasterIPSleepSecondsPerAttempt)"
  using getMasterIP_loop_inv[of env ident "replicate 3 []" 0 w] unfolding getMasterIP_def by blast

lemma getMasterIP_never_empty:
  "getMasterIP env ident w = (Return (ips, None), w') \<Longrightarrow> ips \<noteq> []"
  using getMasterIP_loop_inv[of env ident "replicate 3 []" 0 w] by (auto simp: getMasterIP_def)

lemma emit_after_polls:
  "emit e (w\<lparr>trace := trace w @ polls ident k\<rparr>) = w\<lparr>trace := trace w @ polls ident k @ [e]\<rparr>"
  by (simp add: emit_def)

lemma getMasterIP_found:
  assumes "k < MasterIPAttempts"
    and "\<forall>j<k. fetch_empty env ident (fetches (trace w) + j)"
    and "Sdk_Instances_Get env (fetches (trace w) + k) ident = (Some inst, None)"
    and "Instance_IPs inst \<noteq> []"
  shows "getMasterIP env ident w =
           (Return (Instance_IPs inst, None), w\<lparr>trace := trace w @ polls ident k @ [InstancesGet ident]\<rparr>)"
proof -
  let ?wk = "w\<lparr>trace := trace w @ polls ident k\<rparr>"
  have "getMasterIP env ident w = getMasterIP_loop env ident (replicate 3 []) k ?wk"
    using getMasterIP_loop_skip[of 0 k env ident w] assms(1,2) by (simp add: getMasterIP_def)
  also have "\<dots> = (Return (Instance_IPs inst, None), emit (InstancesGet ident) ?wk)"
    by (rule getMasterIP_loop_found) (use assms in simp_all)
  finally show ?thesis by (simp only: emit_after_polls)
qed

lemma getMasterIP_error:
  assumes "k < MasterIPAttempts"
    and "\<forall>j<k. fetch_empty env ident (fetches (trace w) + j)"
    and "Sdk_Instances_Get env (fetches (trace w) + k) ident = (ins, Some e)"
  shows "getMasterIP env ident w =
           (Return (replicate 3 [], Some e), w\<lparr>trace := trace w @ polls ident k @ [InstancesGet ident]\<rparr>)"
proof -
  let ?wk = "w\<lparr>trace := trace w @ polls ident k\<rparr>"
  have "getMasterIP env ident w = getMasterIP_loop env ident (replicate 3 []) k ?wk"
    using getMasterIP_loop_skip[of 0 k env ident w] assms(1,2) by (simp add: getMasterIP_def)
  also have "\<dots> = (Return (replicate 3 [], Some e), emit (InstancesGet ident) ?wk)"
    by (rule getMasterIP_loop_error[where ins=ins]) (use assms in simp_all)
  finally show ?thesis by (simp only: emit_after_polls)
qed

lemma getMasterIP_exhausted:
  assumes "\<forall>j<MasterIPAttempts. fetch_empty env ident (fetches (trace w) + j)"
  shows "getMasterIP env ident w =
           (Return (replicate 3 [], None), w\<lparr>trace := trace w @ polls ident MasterIPAttempts\<rparr>)"
proof -
  have "getMasterIP env ident w =
          getMasterIP_loop env ident (replicate 3 []) MasterIPAttempts
            (w\<lparr>trace := trace w @ polls ident MasterIPAttempts\<rparr>)"
    using getMasterIP_loop_skip[of 0 MasterIPAttempts env ident w] assms by (simp add: getMasterIP_def)
  then show ?thesis by (simp add: getMasterIP_loop_done)
qed

lemma getMasterIP_next_fetch:
  assumes "k < MasterIPAttempts"
    and "\<forall>j<k. fetch_empty env ident (fetches (trace w) + j)"
  shows "\<exists>rest. trace (snd (getMasterIP env ident w)) = trace w @ polls ident k @ InstancesGet ident # rest"
proof -
  let ?wk = "w\<lparr>trace := trace w @ polls ident k\<rparr>"
  have eq: "getMasterIP env ident w = getMasterIP_loop env ident (replicate 3 []) k ?wk"
    using getMasterIP_loop_skip[of 0 k env ident w] assms(1,2) by (simp add: getMasterIP_def)
  obtain rest where r: "trace (snd (getMasterIP_loop env ident (replicate 3 []) k ?wk)) = trace ?wk @ rest"
    "rest \<noteq> []" "hd rest = InstancesGet ident"
    using getMasterIP_loop_inv[of env ident "replicate 3 []" k ?wk] assms(1) by blast
  then obtain tl0 where "rest = InstancesGet ident # tl0" by (cases rest) auto
  with r(1) eq show ?thesis by simp
qed

section \<open>Claims about the Address Discovery Poller\<close>

text \<open>
  Claim C2. The claim: when all \<open>MasterIPAttempts\<close> fetches succeed with zero addresses,
  the poller returns an empty sequence and a nil error. The code returns the slice it made
  at the start, \<^verbatim>\<open>make([]string, 3, 3)\<close>, with a nil error: three empty strings, after
  100 fetches and 100 sleeps. Shown on an instance that never reports an address.
\<close>

theorem getMasterIP_exhausted_three_empty_strings:
  "getMasterIP (env0 False never_ready both_networks) ''i-123'' world0 =
     (Return (['''', '''', ''''], None), world0\<lparr>trace := polls ''i-123'' 100\<rparr>)"
proof -
  have "\<forall>j<MasterIPAttempts.
          fetch_empty (env0 False never_ready both_networks) ''i-123'' (fetches (trace world0) + j)"
    by (simp add: fetch_empty_def env0_def never_ready_def)
  from getMasterIP_exhausted[OF this] show ?thesis
    by (simp add: world0_def MasterIPAttempts_def numeral_3_eq_3)
qed

text \<open>
  Claim C6. For every identifier and every behaviour of the remote get-instance call: as
  long as the fetches so far have succeeded with zero addresses and the ceiling is not
  reached (\<open>k < MasterIPAttempts\<close> such fetches), the poller issues the next fetch (the
  retry); if that fetch fails, the poller returns its error at once, and the trace ends with
  that fetch: no sleep and no further fetch follow it. In no run are there more than
  \<open>MasterIPAttempts\<close> fetches.
\<close>

theorem getMasterIP_error_stops_empty_retries:
  assumes "k < MasterIPAttempts"
    and "\<forall>j<k. fetch_empty env ident (fetches (trace w) + j)"
  shows "(\<forall>ins e. Sdk_Instances_Get env (fetches (trace w) + k) ident = (ins, Some e) \<longrightarrow>
            getMasterIP env ident w =
              (Return (replicate 3 [], Some e),
               w\<lparr>trace := trace w @ polls ident k @ [InstancesGet ident]\<rparr>))
       \<and> (\<exists>rest. trace (snd (getMasterIP env ident w)) =
                    trace w @ polls ident k @ InstancesGet ident # rest)
       \<and> fetches (trace (snd (getMasterIP env ident w))) \<le> fetches (trace w) + MasterIPAttempts"
  using getMasterIP_error[OF assms] getMasterIP_next_fetch[OF assms] getMasterIP_fetches_le
  by blast

theorem getMasterIP_error_stops_empty_retries_witness:
  "(2::nat) < MasterIPAttempts
   \<and> fetch_empty (env0 False (scripted [[], []]) both_networks) ''i-123'' (fetches (trace world0) + 0)
   \<and> fetch_empty (env0 False (scripted [[], []]) both_networks) ''i-123'' (fetches (trace world0) + 1)
   \<and> Sdk_Instances_Get (env0 False (scripted [[], []]) both_networks) (fetches (trace world0) + 2) ''i-123''
       = (None, Some (Errorf ''connection refused''))
   \<and> getMasterIP (env0 False (scripted [[], []]) both_networks) ''i-123'' world0 =
       (Return (['''', '''', ''''], Some (Errorf ''connection refused'')),
        world0\<lparr>trace := [InstancesGet ''i-123'', Sleep 5, InstancesGet ''i-123'', Sleep 5,
                          InstancesGet ''i-123'']\<rparr>)"
proof -
  let ?env = "env0 False (scripted [[], []]) both_networks"
  have a: "(2::nat) < MasterIPAttempts" by (simp add: MasterIPAttempts_def)
  have b0: "fetch_empty ?env ''i-123'' (fetches (trace world0) + 0)"
    by (simp add: fetch_empty_def env0_def scripted_def world0_def)
  have b1: "fetch_empty ?env ''i-123'' (fetches (trace world0) + 1)"
    by (simp add: fetch_empty_def env0_def scripted_def world0_def)
  have b: "\<forall>j<2. fetch_empty ?env ''i-123'' (fetches (trace world0) + j)"
    using b0 b1 by (simp add: less_Suc_eq numeral_2_eq_2)
  have c: "Sdk_Instances_Get ?env (fetches (trace world0) + 2) ''i-123''
             = (None, Some (Errorf ''connection refused''))"
    by (simp add: env0_def scripted_def world0_def fetches_def)
  from getMasterIP_error_stops_empty_retries[OF a b] c
  have "getMasterIP ?env ''i-123'' world0 =
          (Return (replicate 3 [], Some (Errorf ''connection refused'')),
           world0\<lparr>trace := trace world0 @ polls ''i-123'' 2 @ [InstancesGet ''i-123'']\<rparr>)"
    by blast
  then have "getMasterIP ?env ''i-123'' world0 =
       (Return (['''', '''', ''''], Some (Errorf ''connection refused'')),
        world0\<lparr>trace := [InstancesGet ''i-123'', Sleep 5, InstancesGet ''i-123'', Sleep 5,
                          InstancesGet ''i-123'']\<rparr>)"
    by (simp add: world0_def polls_def MasterIPSleepSecondsPerAttempt_def numeral_3_eq_3 numeral_2_eq_2)
  with a b0 b1 c show ?thesis by blast
qed

text \<open>
  Claim C7. The ceiling is 100; the poller performs at most 100 fetches, whatever the
  remote side answers; and on the first fetch that yields at least one address (after
  \<open>k < 100\<close> fetches without one) it returns that instance's whole address list and a nil
  error, the trace ending with that fetch: \<open>k + 1\<close> fetches, \<open>k\<close> sleeps, nothing
  afterwards. The witness is the spec's scenario: answers \<open>[]\<close>, \<open>[]\<close>,
  \<open>[10.0.0.5]\<close> give \<open>[10.0.0.5]\<close> and nil after exactly 3 fetches.
\<close>

theorem getMasterIP_bounded_first_addresses:
  "MasterIPAttempts = 100
   \<and> fetches (trace (snd (getMasterIP env ident w))) \<le> fetches (trace w) + MasterIPAttempts
   \<and> (\<forall>k inst. k < MasterIPAttempts
          \<and> (\<forall>j<k. fetch_empty env ident (fetches (trace w) + j))
          \<and> Sdk_Instances_Get env (fetches (trace w) + k) ident = (Some inst, None)
          \<and> Instance_IPs inst \<noteq> [] \<longrightarrow>
          getMasterIP env ident w =
            (Return (Instance_IPs inst, None),
             w\<lparr>trace := trace w @ polls ident k @ [InstancesGet ident]\<rparr>))"
  using getMasterIP_found getMasterIP_fetches_le by (simp add: MasterIPAttempts_def)

theorem getMasterIP_bounded_first_addresses_witness:
  "(2::nat) < MasterIPAttempts
   \<and> fetch_empty (env0 False (scripted [[], [], [''10.0.0.5'']]) both_networks) ''i-123''
        (fetches (trace world0) + 0)
   \<and> fetch_empty (env0 False (scripted [[], [], [''10.0.0.5'']]) both_networks) ''i-123''
        (fetches (trace world0) + 1)
   \<and> getMasterIP (env0 False (scripted [[], [], [''10.0.0.5'']]) both_networks) ''i-123'' world0 =
       (Return ([''10.0.0.5''], None),
        world0\<lparr>trace := [InstancesGet ''i-123'', Sleep 5, InstancesGet ''i-123'', Sleep 5,
                          InstancesGet ''i-123'']\<rparr>)
   \<and> fetches [InstancesGet ''i-123'', Sleep 5, InstancesGet ''i-123'', Sleep 5,
               InstancesGet ''i-123''] = 3"
proof -
  let ?env = "env0 False (scripted [[], [], [''10.0.0.5'']]) both_networks"
  let ?inst = "\<lparr>Instance_ID = ''i-123'', Instance_Name = ''pool-1'', Instance_IPs = [''10.0.0.5'']\<rparr>"
  have a: "(2::nat) < MasterIPAttempts" by (simp add: MasterIPAttempts_def)
  have b0: "fetch_empty ?env ''i-123'' (fetches (trace world0) + 0)"
    by (simp add: fetch_empty_def env0_def scripted_def world0_def)
  have b1: "fetch_empty ?env ''i-123'' (fetches (trace world0) + 1)"
    by (simp add: fetch_empty_def env0_def scripted_def world0_def)
  have b: "\<forall>j<2. fetch_empty ?env ''i-123'' (fetches (trace world0) + j)"
    using b0 b1 by (simp add: less_Suc_eq numeral_2_eq_2)
  have c: "Sdk_Instances_Get ?env (fetches (trace world0) + 2) ''i-123'' = (Some ?inst, None)"
    by (simp add: env0_def scripted_def world0_def fetches_def)
  have d: "Instance_IPs ?inst \<noteq> []" by simp
  from getMasterIP_bounded_first_addresses[of ?env "''i-123''" world0] a b c d
  have "getMasterIP ?env ''i-123'' world0 =
          (Return (Instance_IPs ?inst, None),
           world0\<lparr>trace := trace world0 @ polls ''i-123'' 2 @ [InstancesGet ''i-123'']\<rparr>)"
    by blast
  then have "getMasterIP ?env ''i-123'' world0 =
       (Return ([''10.0.0.5''], None),
        world0\<lparr>trace := [InstancesGet ''i-123'', Sleep 5, InstancesGet ''i-123'', Sleep 5,
                          InstancesGet ''i-123'']\<rparr>)"
    by (simp add: world0_def polls_def MasterIPSleepSecondsPerAttempt_def numeral_2_eq_2)
  moreover have "fetches [InstancesGet ''i-123'', Sleep 5, InstancesGet ''i-123'', Sleep 5,
               InstancesGet ''i-123''] = 3"
    by (simp add: fetches_def)
  ultimately show ?thesis using a b0 b1 by blast
qed

section \<open>The example runs, evaluated\<close>

lemma findNetworks_both [simp]:
  "findNetworks both_networks =
     (Some \<lparr>Network_Id = ''net-public'', Network_Name = ''Joyent-SDC-Public''\<rparr>,
      Some \<lparr>Network_Id = ''net-fabric'', Network_Name = ''My-Fabric-Network''\<rparr>)"
  by (simp add: findNetworks_def both_networks_def NetworkName_def FabricNetwork_def)

lemma env0_sel [simp]:
  "Sdk_Instances_Get (env0 eq gets nets) = gets"
  "Sdk_Instances_Create (env0 eq gets nets) input =
     (Some \<lparr>Instance_ID = ''i-123'', Instance_Name = Create_Name input, Instance_IPs = []\<rparr>, None)"
  "Sdk_Images_List (env0 eq gets nets) name version = ([\<lparr>Image_ID = ''img-1''\<rparr>], None)"
  "Sdk_Network_List (env0 eq gets nets) = (nets, None)"
  "compare_IsEqual (env0 eq gets nets) a b = (eq, None)"
  "script_BuildBootstrapScript (env0 eq gets nets) scripts c = (''#!/bin/sh'', None)"
  by (simp_all add: env0_def)

lemma getMasterIP_never_ready:
  "getMasterIP (env0 eq never_ready nets) ident w =
     (Return (['''', '''', ''''], None), w\<lparr>trace := trace w @ polls ident MasterIPAttempts\<rparr>)"
proof -
  have "\<forall>j<MasterIPAttempts. fetch_empty (env0 eq never_ready nets) ident (fetches (trace w) + j)"
    by (simp add: fetch_empty_def never_ready_def)
  from getMasterIP_exhausted[OF this] show ?thesis
    by (simp add: numeral_3_eq_3)
qed

section \<open>Claims about the Resource Reconciler\<close>

text \<open>
  Claim C1. The claim: Apply on a master whose create call succeeds and whose poller runs
  out of attempts returns the error \<^verbatim>\<open>Unable to find master IP addresses\<close>. The code
  tests \<^verbatim>\<open>len(masterIPs) == 0\<close>, but the exhausted poller hands back three empty
  strings, so the test is false: Apply returns the cluster and the new resource with a nil
  error, after 100 fetches, and the endpoint it has written is the empty string.
\<close>

theorem Apply_master_exhausted_succeeds:
  "(case Apply (env0 False never_ready both_networks) (resource0 '''' ServerPoolTypeMaster)
           (actual0 '''') (resource0 '''' ServerPoolTypeMaster) world0 of
      (Return (Some c, Some res, None), w') \<Rightarrow>
        KubernetesAPI_Endpoint (ProviderConfig c) = '''' \<and> Identifier res = ''i-123''
        \<and> fetches (trace w') = 100
    | _ \<Rightarrow> False)"
  by (simp add: Apply_def Apply_masterIP_def Apply_create_def Apply_masterEndpoint_def
      Apply_newResource_def getMasterIP_never_ready resource0_def pool0_def world0_def
      cluster0_def setItem_def setEndpoint_def ProviderConfig_def SetProviderConfig_def
      emit_def MasterIPAttempts_def)

text \<open>
  Claim C3. The claim: when the get-instance call fails, Actual returns the error and no
  resource, without crashing and without using the fetched instance. The code reads
  \<^verbatim>\<open>instance.Name\<close> and \<^verbatim>\<open>instance.ID\<close> before it looks at the error; with the
  nil instance that accompanies an error this is a nil pointer dereference.
\<close>

theorem Actual_fetch_error_nil_instance_panics:
  "Actual (env0 False fetch_fails both_networks) (resource0 ''i-123'' ServerPoolTypeNode) world0 =
     (Panic NilPointerDereference, world0\<lparr>trace := [InstancesGet ''i-123'']\<rparr>)"
  by (simp add: Actual_def fetch_fails_def resource0_def pool0_def world0_def emit_def)

text \<open>
  Claim C4. The claim: with a network listing that succeeds but lacks one of the two named
  networks, Apply still calls create-instance, with empty network ids. The code leaves
  \<^verbatim>\<open>net1\<close> or \<^verbatim>\<open>net2\<close> nil and then reads \<^verbatim>\<open>net1.Id\<close>, \<^verbatim>\<open>net2.Id\<close> while building
  the create input: Apply panics after the two listings, and the trace holds no create
  call. Shown on an empty listing.
\<close>

theorem Apply_missing_network_panics_before_create:
  "Apply (env0 False never_ready []) (resource0 '''' ServerPoolTypeMaster)
         (actual0 '''') (resource0 '''' ServerPoolTypeMaster) world0 =
     (Panic NilPointerDereference,
      \<lparr>cluster = setItem ''INJECTEDPORT'' ''443'' cluster0,
       trace = [ImagesList ''ubuntu-certified-16.04'' ''20180222'', NetworkList]\<rparr>)"
  by (simp add: Apply_def Apply_masterIP_def Apply_create_def findNetworks_def
      resource0_def pool0_def world0_def cluster0_def setItem_def ProviderConfig_def
      SetProviderConfig_def emit_def ImageName_def ImageVersion_def)

text \<open>
  Claim C5. For every pair that the comparer judges equal (true, nil error), whatever the
  receiver, the cluster state and the remote side: Apply returns the cluster pointer it was
  given, the expected resource and a nil error, and the world is unchanged: the trace has
  no new call (in particular no create-instance call) and the cluster object is as before.
\<close>

theorem Apply_equal_is_noop:
  "compare_IsEqual env actual expected = (True, None) \<Longrightarrow>
   Apply env r actual expected w = (Return (Some (cluster w), Some expected, None), w)"
  by (simp add: Apply_def)

theorem Apply_equal_is_noop_witness:
  "compare_IsEqual (env0 True never_ready both_networks) (resource0 ''i-123'' ServerPoolTypeNode)
       (resource0 ''i-123'' ServerPoolTypeNode) = (True, None)
   \<and> Apply (env0 True never_ready both_networks) (resource0 '''' ServerPoolTypeNode)
        (resource0 ''i-123'' ServerPoolTypeNode) (resource0 ''i-123'' ServerPoolTypeNode) world0 =
      (Return (Some cluster0, Some (resource0 ''i-123'' ServerPoolTypeNode), None), world0)"
proof -
  have h: "compare_IsEqual (env0 True never_ready both_networks)
             (resource0 ''i-123'' ServerPoolTypeNode) (resource0 ''i-123'' ServerPoolTypeNode)
           = (True, None)"
    by simp
  from Apply_equal_is_noop[OF h, of "resource0 '''' ServerPoolTypeNode" world0] h
  show ?thesis by (simp add: world0_def)
qed

text \<open>
  Claim C8. With an empty identifier on the actual resource, Delete returns only the error
  \<^verbatim>\<open>Unable to delete VPC resource without ID [name]\<close> and leaves the world as it was
  (no call, no write to the cluster). With a non-empty identifier it returns a resource
  with the receiver's name and tags and an empty identifier, and the cluster as rendered
  from that resource. In both cases the trace is unchanged: Delete calls nothing remote.
\<close>

theorem Delete_requires_identifier:
  "(Identifier actual = '''' \<longrightarrow>
      Delete r actual w =
        (Return (None, None,
           Some (Errorf (''Unable to delete VPC resource without ID ['' @ Name actual @ '']''))), w))
   \<and> (Identifier actual \<noteq> '''' \<longrightarrow>
        (\<exists>res. Delete r actual w =
                 (Return (Some (immutableRender res (cluster w)), Some res, None),
                  w\<lparr>cluster := immutableRender res (cluster w)\<rparr>)
               \<and> Identifier res = '''' \<and> Name res = Name r \<and> Tags res = Tags r
               \<and> ServerPool res = None))
   \<and> trace (snd (Delete r actual w)) = trace w"
  by (simp add: Delete_def Let_def)

theorem Delete_requires_identifier_witness:
  "Identifier (actual0 '''') = ''''
   \<and> Delete (resource0 ''i-123'' ServerPoolTypeNode) (actual0 '''') world0 =
       (Return (None, None, Some (Errorf ''Unable to delete VPC resource without ID [node-1]'')),
        world0)
   \<and> Identifier (actual0 ''i-123'') \<noteq> ''''
   \<and> fst (Delete (resource0 ''i-123'' ServerPoolTypeNode) (actual0 ''i-123'') world0) =
       Return (Some \<lparr>Cluster_Name = ''node-1'',
                     Cluster_ProviderConfig =
                       \<lparr>KubernetesAPI_Endpoint = '''', KubernetesAPI_Port = '''',
                        Values_ItemMap = Map.empty, GroupIdentifier = ''''\<rparr>\<rparr>,
               Some \<lparr>Name = ''node-1'', Tags = [''Name'' \<mapsto> ''pool-1''], Identifier = '''',
                     BootstrapScripts = [], ServerPool = None\<rparr>, None)
   \<and> trace (snd (Delete (resource0 ''i-123'' ServerPoolTypeNode) (actual0 ''i-123'') world0)) = []"
proof -
  have a: "Identifier (actual0 '''') = ''''" by (simp add: actual0_def)
  have b: "Identifier (actual0 ''i-123'') \<noteq> ''''" by (simp add: actual0_def)
  from Delete_requires_identifier[of "actual0 ''''" "resource0 ''i-123'' ServerPoolTypeNode" world0] a
  have c: "Delete (resource0 ''i-123'' ServerPoolTypeNode) (actual0 '''') world0 =
       (Return (None, None, Some (Errorf ''Unable to delete VPC resource without ID [node-1]'')),
        world0)"
    by (simp add: actual0_def)
  from Delete_requires_identifier[of "actual0 ''i-123''" "resource0 ''i-123'' ServerPoolTypeNode" world0] b
  obtain res where d: "Delete (resource0 ''i-123'' ServerPoolTypeNode) (actual0 ''i-123'') world0 =
                 (Return (Some (immutableRender res (cluster world0)), Some res, None),
                  world0\<lparr>cluster := immutableRender res (cluster world0)\<rparr>)"
     and e: "Identifier res = ''''" "Name res = Name (resource0 ''i-123'' ServerPoolTypeNode)"
            "Tags res = Tags (resource0 ''i-123'' ServerPoolTypeNode)" "ServerPool res = None"
    by blast
  have f: "res = \<lparr>Name = ''node-1'', Tags = [''Name'' \<mapsto> ''pool-1''], Identifier = '''',
                     BootstrapScripts = [], ServerPool = None\<rparr>"
    using d by (simp add: Delete_def Let_def resource0_def actual0_def)
  show ?thesis using a b c d f
    by (simp add: immutableRender_def SetProviderConfig_def world0_def cluster0_def)
qed

section \<open>The defects, for every input\<close>

text \<open>
  The loop over the listing leaves \<^verbatim>\<open>net1\<close> nil exactly when no listed network is named
  \<open>NetworkName\<close>, and \<^verbatim>\<open>net2\<close> nil exactly when none is named \<open>FabricNetwork\<close>.
\<close>

lemma findNetworks_fold:
  "fold (\<lambda>found (net1, net2).
           (if Network_Name found = NetworkName then Some found else net1,
            if Network_Name found = FabricNetwork then Some found else net2)) nets (a, b) = (x, y)
   \<Longrightarrow> (x = None \<longleftrightarrow> a = None \<and> (\<forall>n \<in> set nets. Network_Name n \<noteq> NetworkName))
     \<and> (y = None \<longleftrightarrow> b = None \<and> (\<forall>n \<in> set nets. Network_Name n \<noteq> FabricNetwork))"
proof (induction nets arbitrary: a b)
  case Nil
  then show ?case by simp
next
  case (Cons n nets)
  from Cons.prems show ?case
    by (simp only: fold_simps prod.case) (drule Cons.IH, auto)
qed

lemma findNetworks_None:
  "fst (findNetworks nets) = None \<longleftrightarrow> (\<forall>n \<in> set nets. Network_Name n \<noteq> NetworkName)"
  "snd (findNetworks nets) = None \<longleftrightarrow> (\<forall>n \<in> set nets. Network_Name n \<noteq> FabricNetwork)"
  using findNetworks_fold[of nets None None "fst (findNetworks nets)" "snd (findNetworks nets)"]
  by (simp_all add: findNetworks_def)

text \<open>
  Whenever the script is rendered and the listing lacks one of the two networks, whatever
  else the remote side answers, the create step panics right after the two listings.
\<close>

lemma Apply_create_missing_network:
  assumes "script_BuildBootstrapScript env (ServerPool_BootstrapScripts pool)
             (setItem ''INJECTEDPORT'' (KubernetesAPI_Port (ProviderConfig (cluster w))) (cluster w))
           = (boostrapScript, None)"
    and "Sdk_Network_List env = (nets, err)"
    and "(\<forall>n \<in> set nets. Network_Name n \<noteq> NetworkName)
         \<or> (\<forall>n \<in> set nets. Network_Name n \<noteq> FabricNetwork)"
  shows "Apply_create env pool expected w =
           (Panic NilPointerDereference,
            \<lparr>cluster = setItem ''INJECTEDPORT'' (KubernetesAPI_Port (ProviderConfig (cluster w)))
                          (cluster w),
             trace = trace w @ [ImagesList ImageName ImageVersion, NetworkList]\<rparr>)"
proof -
  obtain net1 net2 where f: "findNetworks nets = (net1, net2)"
    by (cases "findNetworks nets")
  have "net1 = None \<or> net2 = None"
    using assms(3) findNetworks_None[of nets] f by auto
  then show ?thesis
    using assms(1,2) f
    by (cases net1; cases net2)
       (auto simp: Apply_create_def Let_def emit_def split: prod.splits)
qed

text \<open>
  Actual with a non-empty identifier: a fetch that hands back no instance panics, whether
  or not it reports an error; a fetch that succeeds yields the live name and id.
\<close>

lemma Actual_nil_instance:
  assumes "ServerPool r = Some pool" and "Identifier r \<noteq> ''''"
    and "Sdk_Instances_Get env (fetches (trace w)) (Identifier r) = (None, err)"
  shows "Actual env r w = (Panic NilPointerDereference, emit (InstancesGet (Identifier r)) w)"
  using assms by (simp add: Actual_def)

lemma Actual_fetch_succeeds:
  assumes "ServerPool r = Some pool" and "Identifier r \<noteq> ''''"
    and "Sdk_Instances_Get env (fetches (trace w)) (Identifier r) = (Some inst, None)"
  shows "Actual env r w =
           (Return (Some (cluster w),
                    Some \<lparr>Name = Instance_Name inst, Tags = [''Name'' \<mapsto> ServerPool_Name pool],
                          Identifier = Instance_ID inst, BootstrapScripts = [],
                          ServerPool = None\<rparr>,
                    None),
            emit (InstancesGet (Identifier r)) w)"
  using assms by (simp add: Actual_def)

text \<open>
  The master's test \<^verbatim>\<open>len(masterIPs) == 0\<close> never holds: whenever the poller returns a
  nil error, its list is the initial slice of three strings or a non-empty address list.
\<close>

lemma Apply_masterEndpoint_test_never_holds:
  "getMasterIP env ident w = (Return (masterIPs, None), w1) \<Longrightarrow> length masterIPs \<noteq> 0"
  using getMasterIP_never_empty by simp

section \<open>What Apply leaves in the cluster state\<close>

lemma ProviderConfig_setEndpoint [simp]:
  "KubernetesAPI_Endpoint (ProviderConfig (setEndpoint v c)) = v"
  "KubernetesAPI_Port (ProviderConfig (setEndpoint v c)) = KubernetesAPI_Port (ProviderConfig c)"
  "Values_ItemMap (ProviderConfig (setEndpoint v c)) = Values_ItemMap (ProviderConfig c)"
  by (simp_all add: setEndpoint_def ProviderConfig_def)

lemma ProviderConfig_setItem [simp]:
  "KubernetesAPI_Endpoint (ProviderConfig (setItem k v c)) = KubernetesAPI_Endpoint (ProviderConfig c)"
  "KubernetesAPI_Port (ProviderConfig (setItem k v c)) = KubernetesAPI_Port (ProviderConfig c)"
  "Values_ItemMap (ProviderConfig (setItem k v c)) = (Values_ItemMap (ProviderConfig c))(k \<mapsto> v)"
  by (simp_all add: setItem_def ProviderConfig_def SetProviderConfig_def Let_def)

lemma Apply_newResource_cluster:
  assumes "Apply_newResource pool expected created w = (Return (Some c, res, err), w')"
  shows "c = cluster w"
  using assms by (auto simp: Apply_newResource_def Let_def split: option.splits)

lemma Apply_masterEndpoint_cluster:
  assumes "Apply_masterEndpoint env pool expected created w = (Return (Some c, res, err), w')"
  shows "Values_ItemMap (ProviderConfig c) = Values_ItemMap (ProviderConfig (cluster w))
       \<and> KubernetesAPI_Port (ProviderConfig c) = KubernetesAPI_Port (ProviderConfig (cluster w))
       \<and> (ServerPool_Type pool = ServerPoolTypeNode \<longrightarrow> c = cluster w)"
proof (cases "ServerPool_Type pool = ServerPoolTypeMaster")
  case False
  then have n: "Apply_newResource pool expected created w = (Return (Some c, res, err), w')"
    using assms by (simp add: Apply_masterEndpoint_def)
  from Apply_newResource_cluster[OF n] show ?thesis by simp
next
  case True
  then obtain inst where cr: "created = Some inst"
    using assms by (cases created) (simp_all add: Apply_masterEndpoint_def)
  obtain x w1 where g: "getMasterIP env (Instance_ID inst) w = (x, w1)"
    by (cases "getMasterIP env (Instance_ID inst) w")
  have cl: "cluster w1 = cluster w"
    using getMasterIP_cluster[of env "Instance_ID inst" w] g by simp
  from assms True cr g obtain masterIPs where
    n: "Apply_newResource pool expected created
          (w1\<lparr>cluster := setEndpoint (masterIPs ! 0) (cluster w1)\<rparr>) = (Return (Some c, res, err), w')"
    by (auto simp: Apply_masterEndpoint_def split: exec.splits prod.splits option.splits if_splits)
  have "c = setEndpoint (masterIPs ! 0) (cluster w)"
    using Apply_newResource_cluster[OF n] cl by simp
  then show ?thesis using True by simp
qed

lemma Apply_create_cluster:
  assumes "Apply_create env pool expected w = (Return (Some c, res, err), w')"
  shows "Values_ItemMap (ProviderConfig c) =
           (Values_ItemMap (ProviderConfig (cluster w)))
             (''INJECTEDPORT'' \<mapsto> KubernetesAPI_Port (ProviderConfig (cluster w)))
       \<and> KubernetesAPI_Port (ProviderConfig c) = KubernetesAPI_Port (ProviderConfig (cluster w))
       \<and> (ServerPool_Type pool = ServerPoolTypeNode \<longrightarrow>
            KubernetesAPI_Endpoint (ProviderConfig c) = KubernetesAPI_Endpoint (ProviderConfig (cluster w)))"
proof -
  let ?c1 = "setItem ''INJECTEDPORT'' (KubernetesAPI_Port (ProviderConfig (cluster w))) (cluster w)"
  from assms obtain created w4 where
    m: "Apply_masterEndpoint env pool expected created w4 = (Return (Some c, res, err), w')"
    and c4: "cluster w4 = ?c1"
    by (auto simp: Apply_create_def Let_def split: prod.splits option.splits)
  from Apply_masterEndpoint_cluster[OF m] c4 show ?thesis by simp
qed

lemma Apply_masterIP_cluster:
  assumes "Apply_masterIP env r pool expected w = (Return (Some c, res, err), w')"
  shows "Values_ItemMap (ProviderConfig c) ''INJECTEDPORT'' = Some (KubernetesAPI_Port (ProviderConfig c))
       \<and> KubernetesAPI_Port (ProviderConfig c) = KubernetesAPI_Port (ProviderConfig (cluster w))
       \<and> (\<forall>ips w1. ServerPool_Type pool = ServerPoolTypeNode
              \<and> getMasterIP env (Identifier r) w = (Return (ips, None), w1) \<longrightarrow>
              KubernetesAPI_Endpoint (ProviderConfig c) = ips ! 0
              \<and> Values_ItemMap (ProviderConfig c) ''INJECTEDMASTER''
                  = Some (ips ! 0 @ '':'' @ KubernetesAPI_Port (ProviderConfig c)))"
proof (cases "ServerPool_Type pool = ServerPoolTypeNode")
  case False
  then have "Apply_create env pool expected w = (Return (Some c, res, err), w')"
    using assms by (simp add: Apply_masterIP_def)
  from Apply_create_cluster[OF this] False show ?thesis by simp
next
  case True
  obtain x w1 where g: "getMasterIP env (Identifier r) w = (x, w1)"
    by (cases "getMasterIP env (Identifier r) w")
  have cl: "cluster w1 = cluster w"
    using getMasterIP_cluster[of env "Identifier r" w] g by simp
  let ?c2 = "\<lambda>ips. setItem ''INJECTEDMASTER''
                (ips ! 0 @ '':'' @ KubernetesAPI_Port (ProviderConfig (setEndpoint (ips ! 0) (cluster w1))))
                (setEndpoint (ips ! 0) (cluster w1))"
  from assms True g obtain ips where
    x: "x = Return (ips, None)"
    and n: "Apply_create env pool expected (w1\<lparr>cluster := ?c2 ips\<rparr>) = (Return (Some c, res, err), w')"
    by (auto simp: Apply_masterIP_def Let_def split: exec.splits prod.splits option.splits if_splits)
  from Apply_create_cluster[OF n] True cl g x show ?thesis by simp
qed

text \<open>
  Claim C9. For every Apply call on a diverged pair (the comparer answers false, nil error)
  that returns a cluster state: the injection map of the returned cluster state holds the
  control-plane port under \<^verbatim>\<open>INJECTEDPORT\<close>, whatever the role, and the port is the one
  the cluster state had. If the role is \<open>ServerPoolTypeNode\<close> and address discovery
  succeeds (after \<open>k < MasterIPAttempts\<close> fetches without an address, a fetch yields an
  instance with at least one), the endpoint of the returned cluster state is the first
  address of that instance, and the map holds that address, a colon and the port under
  \<^verbatim>\<open>INJECTEDMASTER\<close>.
\<close>

theorem Apply_worker_injects_master_and_port:
  assumes "compare_IsEqual env actual expected = (False, None)"
    and "Apply env r actual expected w = (Return (Some c, res, err), w')"
  shows "Values_ItemMap (ProviderConfig c) ''INJECTEDPORT'' = Some (KubernetesAPI_Port (ProviderConfig c))
       \<and> KubernetesAPI_Port (ProviderConfig c) = KubernetesAPI_Port (ProviderConfig (cluster w))
       \<and> (\<forall>pool k inst.
             ServerPool r = Some pool \<and> ServerPool_Type pool = ServerPoolTypeNode
             \<and> k < MasterIPAttempts
             \<and> (\<forall>j<k. fetch_empty env (Identifier r) (fetches (trace w) + j))
             \<and> Sdk_Instances_Get env (fetches (trace w) + k) (Identifier r) = (Some inst, None)
             \<and> Instance_IPs inst \<noteq> [] \<longrightarrow>
             KubernetesAPI_Endpoint (ProviderConfig c) = hd (Instance_IPs inst)
             \<and> Values_ItemMap (ProviderConfig c) ''INJECTEDMASTER''
                 = Some (hd (Instance_IPs inst) @ '':'' @ KubernetesAPI_Port (ProviderConfig c)))"
proof -
  from assms obtain pool0 where p: "ServerPool r = Some pool0"
    and a: "Apply_masterIP env r pool0 expected w = (Return (Some c, res, err), w')"
    by (auto simp: Apply_def split: option.splits)
  note m = Apply_masterIP_cluster[OF a]
  have "KubernetesAPI_Endpoint (ProviderConfig c) = hd (Instance_IPs inst)
        \<and> Values_ItemMap (ProviderConfig c) ''INJECTEDMASTER''
            = Some (hd (Instance_IPs inst) @ '':'' @ KubernetesAPI_Port (ProviderConfig c))"
    if h: "ServerPool r = Some pool" "ServerPool_Type pool = ServerPoolTypeNode"
      "k < MasterIPAttempts" "\<forall>j<k. fetch_empty env (Identifier r) (fetches (trace w) + j)"
      "Sdk_Instances_Get env (fetches (trace w) + k) (Identifier r) = (Some inst, None)"
      "Instance_IPs inst \<noteq> []"
    for pool k inst
  proof -
    have "pool = pool0" using h(1) p by simp
    moreover note getMasterIP_found[OF h(3) h(4) h(5) h(6)]
    moreover have "Instance_IPs inst ! 0 = hd (Instance_IPs inst)"
      using h(6) by (simp add: hd_conv_nth)
    ultimately show ?thesis using m h(2) by metis
  qed
  then show ?thesis using m by blast
qed

lemma getMasterIP_second_fetch:
  "getMasterIP (env0 eq (scripted [[], [''10.0.0.5'']]) nets) ident \<lparr>cluster = c, trace = []\<rparr> =
     (Return ([''10.0.0.5''], None),
      \<lparr>cluster = c, trace = [InstancesGet ident, Sleep 5, InstancesGet ident]\<rparr>)"
proof -
  let ?env = "env0 eq (scripted [[], [''10.0.0.5'']]) nets"
  let ?w = "\<lparr>cluster = c, trace = []\<rparr>"
  have a: "(1::nat) < MasterIPAttempts" by (simp add: MasterIPAttempts_def)
  have b: "\<forall>j<1. fetch_empty ?env ident (fetches (trace ?w) + j)"
    by (simp add: fetch_empty_def scripted_def)
  have c: "Sdk_Instances_Get ?env (fetches (trace ?w) + 1) ident =
             (Some \<lparr>Instance_ID = ident, Instance_Name = ''pool-1'', Instance_IPs = [''10.0.0.5'']\<rparr>, None)"
    by (simp add: scripted_def)
  from getMasterIP_found[OF a b c] show ?thesis
    by (simp add: polls_def MasterIPSleepSecondsPerAttempt_def)
qed

theorem Apply_worker_injects_master_and_port_witness:
  "compare_IsEqual (env0 False (scripted [[], [''10.0.0.5'']]) both_networks)
       (actual0 '''') (resource0 '''' ServerPoolTypeNode) = (False, None)
   \<and> fst (Apply (env0 False (scripted [[], [''10.0.0.5'']]) both_networks)
             (resource0 '''' ServerPoolTypeNode) (actual0 '''') (resource0 '''' ServerPoolTypeNode)
             world0) =
       Return (Some \<lparr>Cluster_Name = ''kube'',
                     Cluster_ProviderConfig =
                       \<lparr>KubernetesAPI_Endpoint = ''10.0.0.5'', KubernetesAPI_Port = ''443'',
                        Values_ItemMap = [''INJECTEDMASTER'' \<mapsto> ''10.0.0.5:443'',
                                          ''INJECTEDPORT'' \<mapsto> ''443''],
                        GroupIdentifier = ''''\<rparr>\<rparr>,
               Some \<lparr>Name = ''pool-1'', Tags = Map.empty, Identifier = ''i-123'',
                     BootstrapScripts = [],
                     ServerPool = Some \<lparr>ServerPool_Name = ''pool-1'',
                                         ServerPool_Type = ServerPoolTypeNode,
                                         ServerPool_BootstrapScripts = [''bootstrap.sh''],
                                         ServerPool_Identifier = ''i-123''\<rparr>\<rparr>,
               None)
   \<and> KubernetesAPI_Endpoint (ProviderConfig
         \<lparr>Cluster_Name = ''kube'',
          Cluster_ProviderConfig =
            \<lparr>KubernetesAPI_Endpoint = ''10.0.0.5'', KubernetesAPI_Port = ''443'',
             Values_ItemMap = [''INJECTEDMASTER'' \<mapsto> ''10.0.0.5:443'',
                               ''INJECTEDPORT'' \<mapsto> ''443''],
             GroupIdentifier = ''''\<rparr>\<rparr>) = ''10.0.0.5''"
proof -
  let ?env = "env0 False (scripted [[], [''10.0.0.5'']]) both_networks"
  let ?r = "resource0 '''' ServerPoolTypeNode"
  let ?c = "\<lparr>Cluster_Name = ''kube'',
             Cluster_ProviderConfig =
               \<lparr>KubernetesAPI_Endpoint = ''10.0.0.5'', KubernetesAPI_Port = ''443'',
                Values_ItemMap = [''INJECTEDMASTER'' \<mapsto> ''10.0.0.5:443'',
                                  ''INJECTEDPORT'' \<mapsto> ''443''],
                GroupIdentifier = ''''\<rparr>\<rparr>"
  let ?inst = "\<lparr>Instance_ID = '''', Instance_Name = ''pool-1'', Instance_IPs = [''10.0.0.5'']\<rparr>"
  have h1: "compare_IsEqual ?env (actual0 '''') ?r = (False, None)" by simp
  have run: "fst (Apply ?env ?r (actual0 '''') ?r world0) =
       Return (Some ?c,
               Some \<lparr>Name = ''pool-1'', Tags = Map.empty, Identifier = ''i-123'',
                     BootstrapScripts = [],
                     ServerPool = Some \<lparr>ServerPool_Name = ''pool-1'',
                                         ServerPool_Type = ServerPoolTypeNode,
                                         ServerPool_BootstrapScripts = [''bootstrap.sh''],
                                         ServerPool_Identifier = ''i-123''\<rparr>\<rparr>,
               None)"
    by (simp add: Apply_def Apply_masterIP_def Apply_create_def Apply_masterEndpoint_def
        Apply_newResource_def getMasterIP_second_fetch resource0_def pool0_def world0_def
        cluster0_def setItem_def setEndpoint_def ProviderConfig_def SetProviderConfig_def
        emit_def)
  then have h2: "Apply ?env ?r (actual0 '''') ?r world0 =
      (Return (Some ?c,
               Some \<lparr>Name = ''pool-1'', Tags = Map.empty, Identifier = ''i-123'',
                     BootstrapScripts = [],
                     ServerPool = Some \<lparr>ServerPool_Name = ''pool-1'',
                                         ServerPool_Type = ServerPoolTypeNode,
                                         ServerPool_BootstrapScripts = [''bootstrap.sh''],
                                         ServerPool_Identifier = ''i-123''\<rparr>\<rparr>,
               None), snd (Apply ?env ?r (actual0 '''') ?r world0))"
    by (metis prod.collapse)
  have k: "(1::nat) < MasterIPAttempts" by (simp add: MasterIPAttempts_def)
  have e: "\<forall>j<1. fetch_empty ?env (Identifier ?r) (fetches (trace world0) + j)"
    by (simp add: fetch_empty_def scripted_def world0_def resource0_def)
  have g: "Sdk_Instances_Get ?env (fetches (trace world0) + 1) (Identifier ?r) = (Some ?inst, None)"
    by (simp add: scripted_def world0_def resource0_def)
  have p: "ServerPool ?r = Some (pool0 ServerPoolTypeNode)"
    "ServerPool_Type (pool0 ServerPoolTypeNode) = ServerPoolTypeNode"
    by (simp_all add: resource0_def pool0_def)
  have i: "Instance_IPs ?inst \<noteq> []" by simp
  from Apply_worker_injects_master_and_port[OF h1 h2] p k e g i
  have "KubernetesAPI_Endpoint (ProviderConfig ?c) = hd (Instance_IPs ?inst)"
    by blast
  then have "KubernetesAPI_Endpoint (ProviderConfig ?c) = ''10.0.0.5''" by simp
  with h1 run show ?thesis by blast
qed

section \<open>Claims about the client constructor\<close>

lemma NewSdk_cases:
  "(\<exists>c n. NewSdk sys = Returned (Some \<lparr>Compute = c, Network = n\<rparr>, None))
   \<or> (\<exists>m. NewSdk sys = Fatalf m)"
  by (auto simp: NewSdk_def Let_def split: process.splits prod.splits option.splits)

text \<open>
  Claim C10. For every operating system and library behaviour: if \<^verbatim>\<open>NewSdk\<close> returns,
  it returns a non-nil \<^verbatim>\<open>Sdk\<close> and a nil error; every run either returns so or ends
  the process through \<^verbatim>\<open>log.Fatalf\<close>. The two returns of
  \<^verbatim>\<open>Empty $TRITON_KEY_ID\<close> are never taken, both tests reading the non-empty literal
  key id. The witness shows a run that returns and a run that ends the process.
\<close>

theorem NewSdk_returns_sdk_and_nil_error:
  "(\<forall>sdk err. NewSdk sys = Returned (sdk, err) \<longrightarrow> sdk \<noteq> None \<and> err = None)
   \<and> ((\<exists>c n. NewSdk sys = Returned (Some \<lparr>Compute = c, Network = n\<rparr>, None))
        \<or> (\<exists>m. NewSdk sys = Fatalf m))"
  using NewSdk_cases[of sys] by auto

theorem NewSdk_returns_sdk_and_nil_error_witness:
  "NewSdk (system0 None) =
     Returned (Some \<lparr>Compute = Some (ComputeClient 1), Network = Some (NetworkClient 1)\<rparr>, None)
   \<and> Some \<lparr>Compute = Some (ComputeClient 1), Network = Some (NetworkClient 1)\<rparr> \<noteq> None
   \<and> NewSdk (system0 (Some (Errorf ''agent unreachable''))) =
       Fatalf ''Error Creating SSH Agent Signer: agent unreachable''"
proof -
  have r: "NewSdk (system0 None) =
     Returned (Some \<lparr>Compute = Some (ComputeClient 1), Network = Some (NetworkClient 1)\<rparr>, None)"
    by (simp add: NewSdk_def NewSdk_signer_def system0_def)
  have f: "NewSdk (system0 (Some (Errorf ''agent unreachable''))) =
       Fatalf ''Error Creating SSH Agent Signer: agent unreachable''"
    by (simp add: NewSdk_def NewSdk_signer_def system0_def)
  from NewSdk_returns_sdk_and_nil_error[of "system0 None"] r
  have "Some \<lparr>Compute = Some (ComputeClient 1), Network = Some (NetworkClient 1)\<rparr> \<noteq> None"
    by blast
  with r f show ?thesis by blast
qed

end
